theory Spec2Isabelle
  imports Complex_Main
begin

section \<open>Score aggregation (utils/holes)\<close>

text \<open>
  The new-round form imports \<^verbatim>\<open>getGross, getIn, getNet, getOut\<close> from
  \<^verbatim>\<open>utils/holes\<close> and applies them to the transformed hole scores. The module
  itself is missing from the sources, so the four functions are written down from their
  specification: scores are an ordered sequence of integers, the front nine
  are the entries at positions 0..8, the back nine the entries at positions 9..17.
\<close>

definition getOut :: "int list \<Rightarrow> int" where
  \<comment> \<open>Modelled from the spec: utils/holes.getOut is missing; "sum of scores[0..8]".\<close>
  "getOut scores = sum_list (take 9 scores)"

definition getIn :: "int list \<Rightarrow> int" where
  \<comment> \<open>Modelled from the spec: utils/holes.getIn is missing; "sum of scores[9..17]".\<close>
  "getIn scores = sum_list (take 9 (drop 9 scores))"

definition getGross :: "int list \<Rightarrow> int" where
  \<comment> \<open>Modelled from the spec: utils/holes.getGross is missing; "sum of all 18".\<close>
  "getGross scores = sum_list scores"

definition getNet :: "int list \<Rightarrow> int \<Rightarrow> int" where
  \<comment> \<open>Modelled from the spec: utils/holes.getNet is missing;
      "getGross(scores) - handicap".\<close>
  "getNet scores handicap = getGross scores - handicap"

section \<open>Reference data\<close>

text \<open>
  The enumerations of \<^verbatim>\<open>data/constants\<close> and the \<^verbatim>\<open>Player\<close> and \<^verbatim>\<open>Hole\<close> entities
  that the queries deliver. Only the fields the form reads are kept.
\<close>

datatype TournamentDay = FRIDAY | SATURDAY | SUNDAY | ALL

datatype Division = A | B

record Player =
  id_player :: int
  fullName :: string
  division :: Division
  handicap :: int

record Hole =
  holeNumber :: nat
  par :: int
  hole_handicap :: int

text \<open>
  A query is loading, has failed, or holds data. The form reads
  \<^verbatim>\<open>query.isSuccess ? query.data : []\<close>.
\<close>

datatype 'a query = QueryPending | QueryError | QuerySuccess "'a list"

definition query_data :: "'a query \<Rightarrow> 'a list" where
  "query_data q = (case q of QuerySuccess d \<Rightarrow> d | _ \<Rightarrow> [])"

section \<open>The new-round form (components/round/NewRound)\<close>

subsection \<open>Form values\<close>

text \<open>
  A score field starts as the empty string and afterwards holds whatever the number
  input reports: a number, or the empty string again once the input is cleared. Numbers
  are rationals, so that fractional and negative values can be spoken about; other
  strings and the non-finite numbers are outside the model.

  The player field is \<^verbatim>\<open>null\<close> (\<open>None\<close>) or the value of a select item, which is the
  decimal string of a player id; \<open>Some n\<close> stands for the string of \<open>n\<close>.
\<close>

datatype field = EmptyString | NumberValue rat

record hole_entry =
  score :: field

record form_values =
  playerId :: "int option"
  day :: TournamentDay
  grossHoles :: "hole_entry list"

text \<open>
  \<^verbatim>\<open>Number(value)\<close> on the two kinds of field: the empty string becomes 0, a number is
  itself, \<^verbatim>\<open>null\<close> becomes 0 and the decimal string of \<open>n\<close> becomes \<open>n\<close>.
\<close>

fun Number_field :: "field \<Rightarrow> rat" where
  "Number_field EmptyString = 0"
| "Number_field (NumberValue q) = q"

fun Number_playerId :: "int option \<Rightarrow> int" where
  "Number_playerId None = 0"
| "Number_playerId (Some n) = n"

text \<open>
  \<^verbatim>\<open>initialValues\<close>. The day comes from \<^verbatim>\<open>getTournamentDay()\<close> of \<^verbatim>\<open>utils/date\<close>, which
  is taken as a parameter.
\<close>

definition initialValues :: "TournamentDay \<Rightarrow> form_values" where
  "initialValues today =
     \<lparr>playerId = None, day = today, grossHoles = replicate 18 \<lparr>score = EmptyString\<rparr>\<rparr>"

subsection \<open>Validation\<close>

text \<open>
  A rule returns \<^verbatim>\<open>null\<close> (\<open>None\<close>) for a valid field, and otherwise an error: a message,
  or the bare value \<^verbatim>\<open>true\<close>, which marks the field without a message.
\<close>

datatype form_error = Message string | Marked

datatype field_path = PlayerIdPath | DayPath | ScorePath nat

type_synonym form_errors = "(field_path \<times> form_error) list"

definition validate_playerId :: "int option \<Rightarrow> form_error option" where
  "validate_playerId value =
     (if value \<noteq> None then None else Some (Message ''Player is required''))"

definition validate_score :: "field \<Rightarrow> form_error option" where
  "validate_score value = (if Number_field value > 0 then None else Some Marked)"

text \<open>
  The form library runs the \<^verbatim>\<open>playerId\<close> rule on the player field and the \<^verbatim>\<open>score\<close>
  rule on every entry of \<^verbatim>\<open>grossHoles\<close>, under the path \<^verbatim>\<open>grossHoles.i.score\<close>, and keeps
  the results that are not \<^verbatim>\<open>null\<close>.
\<close>

definition rule_error :: "field_path \<Rightarrow> form_error option \<Rightarrow> form_errors" where
  "rule_error path r = (case r of None \<Rightarrow> [] | Some e \<Rightarrow> [(path, e)])"

definition validate :: "form_values \<Rightarrow> form_errors" where
  "validate vs =
     rule_error PlayerIdPath (validate_playerId (playerId vs))
     @ concat (map (\<lambda>(i, hole). rule_error (ScorePath i) (validate_score (score hole)))
                 (enumerate 0 (grossHoles vs)))"

subsection \<open>Transformed values\<close>

record NewRoundFormData =
  player :: "Player option"
  data_day :: TournamentDay
  data_grossHoles :: "rat list"

definition transformValues :: "Player list \<Rightarrow> form_values \<Rightarrow> NewRoundFormData" where
  "transformValues players vs =
     \<lparr>player = find (\<lambda>p. id_player p = Number_playerId (playerId vs)) players,
      data_day = day vs,
      data_grossHoles = map (\<lambda>hole. Number_field (score hole)) (grossHoles vs)\<rparr>"

subsection \<open>Submission\<close>

text \<open>
  What the submit handler does to the world is recorded as a trace of calls: the
  notifications of \<^verbatim>\<open>components/feedback/notifications\<close>, the call of the create-round
  mutation with its variables, and \<^verbatim>\<open>closeModal\<close>.
\<close>

record CreateRound =
  round_playerId :: int
  round_day :: TournamentDay
  round_grossHoles :: "rat list"

datatype effect =
    NotifyLoading string
  | NotifyUpdateSuccess string
  | NotifyUpdateFailure string
  | Mutate CreateRound
  | CloseModal

text \<open>
  The mutation either fails in transport, which runs \<^verbatim>\<open>onError\<close>, or delivers a
  response, which runs \<^verbatim>\<open>onSuccess\<close> with that value. The response is any value of the
  host language.
\<close>

datatype js_value =
    JsUndefined
  | JsNull
  | JsBoolean bool
  | JsNumber rat
  | JsString string
  | JsObject

datatype mutation_result = MutationError | MutationResponse js_value

definition onSuccess :: "js_value \<Rightarrow> effect list" where
  "onSuccess response =
     (if response = JsBoolean True
      then [NotifyUpdateSuccess ''Saved round'', CloseModal]
      else [NotifyUpdateFailure ''Failed to save round''])"

definition onError :: "effect list" where
  "onError = [NotifyUpdateFailure ''Failed to save round'']"

definition settle :: "mutation_result \<Rightarrow> effect list" where
  "settle result =
     (case result of MutationError \<Rightarrow> onError | MutationResponse response \<Rightarrow> onSuccess response)"

record form_state =
  values_of :: form_values
  errors :: form_errors

definition onSubmit ::
    "NewRoundFormData \<Rightarrow> mutation_result \<Rightarrow> form_state \<Rightarrow> form_state \<times> effect list" where
  "onSubmit data result form =
     (case player data of
        Some p \<Rightarrow>
          (form,
           [NotifyLoading ''Saving round..'',
            Mutate \<lparr>round_playerId = id_player p, round_day = data_day data,
                    round_grossHoles = data_grossHoles data\<rparr>]
           @ settle result)
      | None \<Rightarrow>
          (form\<lparr>errors := [(PlayerIdPath, Message ''Selected player no longer exists'')]\<rparr>,
           []))"

text \<open>
  \<^verbatim>\<open>form.onSubmit(handler)\<close>: the library validates, stores the validation errors, and
  calls the handler with the transformed values only when there are none.
\<close>

definition submit ::
    "Player query \<Rightarrow> mutation_result \<Rightarrow> form_state \<Rightarrow> form_state \<times> effect list" where
  "submit playersQuery result form =
     (let errs = validate (values_of form) in
      if errs \<noteq> [] then (form\<lparr>errors := errs\<rparr>, [])
      else onSubmit (transformValues (query_data playersQuery) (values_of form)) result
             (form\<lparr>errors := errs\<rparr>))"

definition failure_notifications :: "effect list \<Rightarrow> string list" where
  "failure_notifications effs = [m. NotifyUpdateFailure m \<leftarrow> effs]"

definition success_notifications :: "effect list \<Rightarrow> string list" where
  "success_notifications effs = [m. NotifyUpdateSuccess m \<leftarrow> effs]"

definition mutations :: "effect list \<Rightarrow> CreateRound list" where
  "mutations effs = [r. Mutate r \<leftarrow> effs]"

subsection \<open>Editing the form\<close>

text \<open>
  The form is changed through its inputs only: the player select, the day selector, one
  hole input per fetched hole bound to \<^verbatim>\<open>grossHoles.index.score\<close>, and the Clear button,
  which resets to the initial values. A hole input is a number input of the component
  library; which values it lets through is decided inside that component, so a score
  event carries whatever value the input reports and the form stores it as it is.
  Writing a score replaces the \<^verbatim>\<open>score\<close> of an existing entry; the library reaches the
  entry first, so a path beyond the end of the list writes nothing and the list never
  grows.
\<close>

definition setScore :: "nat \<Rightarrow> field \<Rightarrow> form_values \<Rightarrow> form_values" where
  "setScore index v vs =
     (if index < length (grossHoles vs)
      then vs\<lparr>grossHoles := (grossHoles vs)[index := (grossHoles vs ! index)\<lparr>score := v\<rparr>]\<rparr>
      else vs)"

datatype event =
    ChangePlayer "int option"
  | ChangeDay TournamentDay
  | ChangeScore nat field
  | ResetForm

fun apply_event :: "TournamentDay \<Rightarrow> Hole list \<Rightarrow> form_values \<Rightarrow> event \<Rightarrow> form_values" where
  "apply_event today holes vs (ChangePlayer p) = vs\<lparr>playerId := p\<rparr>"
| "apply_event today holes vs (ChangeDay d) = vs\<lparr>day := d\<rparr>"
| "apply_event today holes vs (ChangeScore index v) =
     (if index < length holes then setScore index v vs else vs)"
| "apply_event today holes vs ResetForm = initialValues today"

definition run :: "TournamentDay \<Rightarrow> Hole list \<Rightarrow> event list \<Rightarrow> form_values" where
  "run today holes evs = foldl (apply_event today holes) (initialValues today) evs"

section \<open>Example data\<close>

text \<open>
  A score card (the one the specification uses as its example), one player, a player
  list from which that player is gone, the eighteen holes, a filled-in form with its
  transformed values and mutation variables, and the editing session that fills the form
  in.
\<close>

definition example_scores :: "int list" where
  "example_scores = [4, 5, 3, 4, 5, 4, 3, 5, 4, 4, 4, 5, 3, 4, 5, 4, 3, 4]"

definition example_players :: "Player list" where
  "example_players = [\<lparr>id_player = 3, fullName = ''Pat Doe'', division = A, handicap = 10\<rparr>]"

definition remaining_players :: "Player list" where
  "remaining_players = [\<lparr>id_player = 5, fullName = ''Sam Roe'', division = B, handicap = 18\<rparr>]"

definition example_values :: form_values where
  "example_values =
     \<lparr>playerId = Some 3, day = FRIDAY,
      grossHoles = map (\<lambda>n. \<lparr>score = NumberValue (of_int n)\<rparr>) example_scores\<rparr>"

definition example_round :: CreateRound where
  "example_round =
     \<lparr>round_playerId = 3, round_day = FRIDAY,
      round_grossHoles = map of_int example_scores\<rparr>"

definition example_data :: NewRoundFormData where
  "example_data = transformValues example_players example_values"

definition example_holes :: "Hole list" where
  "example_holes = map (\<lambda>n. \<lparr>holeNumber = n, par = 4, hole_handicap = int n\<rparr>) [1..<19]"

definition example_events :: "event list" where
  "example_events =
     ChangePlayer (Some 3) # ChangeDay FRIDAY
     # map (\<lambda>(i, n). ChangeScore i (NumberValue (of_int n))) (enumerate 0 example_scores)"

section \<open>Properties of the aggregates\<close>

lemma sum_list_nth_lessThan:
  fixes xs :: "int list"
  shows "sum_list xs = (\<Sum>i<length xs. xs ! i)"
  by (simp add: sum_list_sum_nth atLeast0LessThan)

lemma back_nine_is_rest:
  assumes "length scores = 18"
  shows "take 9 (drop 9 scores) = drop 9 scores"
  using assms by simp

text \<open>
  Claim C1. For every score sequence of 18 entries the gross total is the sum of the
  front-nine total and the back-nine total.
\<close>

theorem gross_is_out_plus_in:
  assumes "length scores = 18"
  shows "getGross scores = getOut scores + getIn scores"
proof -
  have "sum_list scores = sum_list (take 9 scores @ drop 9 scores)"
    by simp
  also have "\<dots> = sum_list (take 9 scores) + sum_list (drop 9 scores)"
    by (rule sum_list_append)
  finally show ?thesis
    using back_nine_is_rest [OF assms] by (simp add: getGross_def getOut_def getIn_def)
qed

theorem gross_is_out_plus_in_witness:
  "length example_scores = 18
   \<and> getGross example_scores = getOut example_scores + getIn example_scores"
  using gross_is_out_plus_in [of example_scores] by (simp add: example_scores_def)

lemma sum_nth_shift:
  fixes xs :: "int list"
  shows "sum_list (drop k xs) = (\<Sum>i = k..<length xs. xs ! i)"
proof -
  have "sum_list (drop k xs) = (\<Sum>i<length xs - k. drop k xs ! i)"
    by (simp add: sum_list_nth_lessThan)
  also have "\<dots> = (\<Sum>i<length xs - k. xs ! (k + i))"
    by (rule sum.cong) simp_all
  also have "\<dots> = (\<Sum>i = k..<length xs. xs ! i)"
    by (rule sum.reindex_bij_witness [where i = "\<lambda>i. i - k" and j = "\<lambda>i. k + i"]) auto
  finally show ?thesis .
qed

text \<open>
  Claim C2. For every score sequence of 18 entries, the front-nine total is the sum of the
  entries at positions 0 to 8, the back-nine total is the sum of the entries at positions
  9 to 17, and the gross total is the sum of all 18 entries.
\<close>

theorem aggregates_are_sums:
  assumes "length scores = 18"
  shows "getOut scores = (\<Sum>i = 0..8. scores ! i)
       \<and> getIn scores = (\<Sum>i = 9..17. scores ! i)
       \<and> getGross scores = (\<Sum>i = 0..17. scores ! i)"
proof -
  have out: "getOut scores = (\<Sum>i = 0..8. scores ! i)"
  proof -
    have "sum_list (take 9 scores) = (\<Sum>i<9. take 9 scores ! i)"
      using assms by (simp add: sum_list_nth_lessThan)
    also have "\<dots> = (\<Sum>i<9. scores ! i)"
      by (rule sum.cong) simp_all
    also have "{..<9::nat} = {0..8}" by auto
    finally show ?thesis by (simp add: getOut_def)
  qed
  have "getIn scores = sum_list (drop 9 scores)"
    using back_nine_is_rest [OF assms] by (simp add: getIn_def)
  also have "\<dots> = (\<Sum>i = 9..<18. scores ! i)"
    using assms by (simp add: sum_nth_shift)
  also have "{9..<18::nat} = {9..17}" by auto
  finally have inn: "getIn scores = (\<Sum>i = 9..17. scores ! i)" .
  have "getGross scores = (\<Sum>i<18. scores ! i)"
    using assms by (simp add: getGross_def sum_list_nth_lessThan)
  also have "{..<18::nat} = {0..17}" by auto
  finally have gross: "getGross scores = (\<Sum>i = 0..17. scores ! i)" .
  from out inn gross show ?thesis by simp
qed

theorem aggregates_are_sums_witness:
  "length example_scores = 18
   \<and> getOut example_scores = (\<Sum>i = 0..8. example_scores ! i)
   \<and> getIn example_scores = (\<Sum>i = 9..17. example_scores ! i)
   \<and> getGross example_scores = (\<Sum>i = 0..17. example_scores ! i)"
  using aggregates_are_sums [of example_scores] by (simp add: example_scores_def)

text \<open>
  Claim C3. For every score sequence of 18 entries and every integer handicap, the net
  total is the gross total minus the handicap; it is negative when the handicap exceeds
  the gross total.
\<close>

theorem net_is_gross_minus_handicap:
  assumes "length scores = 18"
  shows "getNet scores h = getGross scores - h
       \<and> (getGross scores < h \<longrightarrow> getNet scores h < 0)"
  by (simp add: getNet_def)

theorem net_is_gross_minus_handicap_witness:
  "length example_scores = 18
   \<and> getGross example_scores < 80
   \<and> getNet example_scores 80 = getGross example_scores - 80
   \<and> getNet example_scores 80 < 0"
  using net_is_gross_minus_handicap [of example_scores 80]
  by (simp add: example_scores_def getGross_def)

text \<open>
  Claim C8. For the scores 4,5,3,4,5,4,3,5,4, 4,4,5,3,4,5,4,3,4 and the handicap 10, the
  front nine total 37, the back nine 36, the gross total is 73 and the net total 63.
\<close>

theorem example_round_totals:
  "getOut [4, 5, 3, 4, 5, 4, 3, 5, 4, 4, 4, 5, 3, 4, 5, 4, 3, 4] = 37
   \<and> getIn [4, 5, 3, 4, 5, 4, 3, 5, 4, 4, 4, 5, 3, 4, 5, 4, 3, 4] = 36
   \<and> getGross [4, 5, 3, 4, 5, 4, 3, 5, 4, 4, 4, 5, 3, 4, 5, 4, 3, 4] = 73
   \<and> getNet [4, 5, 3, 4, 5, 4, 3, 5, 4, 4, 4, 5, 3, 4, 5, 4, 3, 4] 10 = 63"
  by (simp add: getOut_def getIn_def getGross_def getNet_def)

section \<open>Validation and the gate before the submit handler\<close>

lemma rule_error_empty_iff: "rule_error path r = [] \<longleftrightarrow> r = None"
  by (simp add: rule_error_def split: option.splits)

lemma validate_score_None_iff: "validate_score v = None \<longleftrightarrow> 0 < Number_field v"
  by (simp add: validate_score_def)

lemma validate_playerId_None_iff: "validate_playerId v = None \<longleftrightarrow> v \<noteq> None"
  by (simp add: validate_playerId_def)

lemma set_enumerate_snd: "snd ` set (enumerate n xs) = set xs"
proof -
  have "set (map snd (enumerate n xs)) = set xs"
    by (simp only: map_snd_enumerate)
  then show ?thesis
    by (simp only: set_map)
qed

lemma score_rules_empty_iff:
  "concat (map (\<lambda>(i, hole). rule_error (ScorePath i) (validate_score (score hole)))
             (enumerate n hs)) = []
   \<longleftrightarrow> (\<forall>h\<in>set hs. 0 < Number_field (score h))"
proof -
  have "concat (map (\<lambda>(i, hole). rule_error (ScorePath i) (validate_score (score hole)))
             (enumerate n hs)) = []
        \<longleftrightarrow> (\<forall>x\<in>set (enumerate n hs). 0 < Number_field (score (snd x)))"
    by (auto simp: rule_error_empty_iff validate_score_None_iff)
  also have "\<dots> \<longleftrightarrow> (\<forall>h\<in>snd ` set (enumerate n hs). 0 < Number_field (score h))"
    by blast
  finally show ?thesis
    by (simp only: set_enumerate_snd)
qed

lemma validate_empty_iff:
  "validate vs = []
   \<longleftrightarrow> playerId vs \<noteq> None \<and> (\<forall>h\<in>set (grossHoles vs). 0 < Number_field (score h))"
  unfolding validate_def
  by (simp only: append_is_Nil_conv rule_error_empty_iff validate_playerId_None_iff
        score_rules_empty_iff)

lemma validate_player_error:
  "(PlayerIdPath, e) \<in> set (validate vs)
   \<longleftrightarrow> playerId vs = None \<and> e = Message ''Player is required''"
  by (auto simp: validate_def rule_error_def validate_playerId_def split: option.splits)

lemma validate_score_error:
  "(ScorePath i, e) \<in> set (validate vs)
   \<longleftrightarrow> i < length (grossHoles vs) \<and> \<not> 0 < Number_field (score (grossHoles vs ! i)) \<and> e = Marked"
  by (auto simp: validate_def rule_error_def validate_playerId_def validate_score_def
        in_set_enumerate_eq split: option.splits if_splits)

lemma validate_example_values: "validate example_values = []"
  by (simp add: validate_def example_values_def example_scores_def rule_error_def
        validate_playerId_def validate_score_def)

lemma validate_initialValues:
  "validate (initialValues FRIDAY) =
     (PlayerIdPath, Message ''Player is required'') # map (\<lambda>i. (ScorePath i, Marked)) [0..<18]"
  by (simp add: validate_def initialValues_def rule_error_def validate_playerId_def
        validate_score_def eval_nat_numeral upt_rec)

lemma example_data_eq:
  "example_data =
     \<lparr>player = Some \<lparr>id_player = 3, fullName = ''Pat Doe'', division = A, handicap = 10\<rparr>,
      data_day = FRIDAY, data_grossHoles = map of_int example_scores\<rparr>"
  by (simp add: example_data_def transformValues_def example_players_def example_values_def
        example_scores_def)

text \<open>
  Claim C4. Submitting the form is blocked with validation errors whenever no player is
  selected or some hole score, read as a number, is not greater than 0: the errors are
  stored and the submit handler does not run. Conversely, when a player is selected and
  every score is greater than 0, validation finds no error and the submit handler runs on
  the transformed values.
\<close>

theorem submission_blocked_iff_invalid:
  "(playerId (values_of form) = None
      \<or> (\<exists>h\<in>set (grossHoles (values_of form)). \<not> 0 < Number_field (score h))
    \<longrightarrow> validate (values_of form) \<noteq> []
        \<and> submit playersQuery result form = (form\<lparr>errors := validate (values_of form)\<rparr>, []))
   \<and> (playerId (values_of form) \<noteq> None
      \<and> (\<forall>h\<in>set (grossHoles (values_of form)). 0 < Number_field (score h))
    \<longrightarrow> validate (values_of form) = []
        \<and> submit playersQuery result form =
            onSubmit (transformValues (query_data playersQuery) (values_of form)) result
              (form\<lparr>errors := []\<rparr>))"
proof (intro conjI impI)
  assume bad: "playerId (values_of form) = None
      \<or> (\<exists>h\<in>set (grossHoles (values_of form)). \<not> 0 < Number_field (score h))"
  then show invalid: "validate (values_of form) \<noteq> []"
    using validate_empty_iff [of "values_of form"] by blast
  then show "submit playersQuery result form = (form\<lparr>errors := validate (values_of form)\<rparr>, [])"
    by (simp add: submit_def Let_def)
next
  assume good: "playerId (values_of form) \<noteq> None
      \<and> (\<forall>h\<in>set (grossHoles (values_of form)). 0 < Number_field (score h))"
  then show valid: "validate (values_of form) = []"
    using validate_empty_iff [of "values_of form"] by blast
  then show "submit playersQuery result form =
            onSubmit (transformValues (query_data playersQuery) (values_of form)) result
              (form\<lparr>errors := []\<rparr>)"
    by (simp add: submit_def Let_def)
qed

theorem submission_blocked_iff_invalid_witness:
  "playerId (values_of \<lparr>values_of = initialValues FRIDAY, errors = []\<rparr>) = None
   \<and> validate (initialValues FRIDAY) \<noteq> []
   \<and> submit (QuerySuccess example_players) MutationError
        \<lparr>values_of = initialValues FRIDAY, errors = []\<rparr>
      = (\<lparr>values_of = initialValues FRIDAY, errors = validate (initialValues FRIDAY)\<rparr>, [])
   \<and> playerId example_values \<noteq> None
   \<and> list_all (\<lambda>h. 0 < Number_field (score h)) (grossHoles example_values)
   \<and> validate example_values = []
   \<and> submit (QuerySuccess example_players) MutationError
        \<lparr>values_of = example_values, errors = []\<rparr>
      = onSubmit example_data MutationError \<lparr>values_of = example_values, errors = []\<rparr>"
proof -
  have bad: "playerId (values_of \<lparr>values_of = initialValues FRIDAY, errors = []\<rparr>) = None"
    by (simp add: initialValues_def)
  have good: "playerId example_values \<noteq> None
      \<and> list_all (\<lambda>h. 0 < Number_field (score h)) (grossHoles example_values)"
    by (simp add: example_values_def example_scores_def)
  show ?thesis
    using bad good
      submission_blocked_iff_invalid
        [of "\<lparr>values_of = initialValues FRIDAY, errors = []\<rparr>" "QuerySuccess example_players"
          MutationError]
      submission_blocked_iff_invalid
        [of "\<lparr>values_of = example_values, errors = []\<rparr>" "QuerySuccess example_players"
          MutationError]
    by (simp add: list_all_iff example_data_def query_data_def)
qed

section \<open>The submit handler\<close>

lemma failure_notifications_settle:
  "result \<noteq> MutationResponse (JsBoolean True)
   \<Longrightarrow> failure_notifications (settle result) = [''Failed to save round'']"
  by (cases result)
     (simp_all add: settle_def onError_def onSuccess_def failure_notifications_def)

lemma CloseModal_settle_iff:
  "CloseModal \<in> set (settle result) \<longleftrightarrow> result = MutationResponse (JsBoolean True)"
  by (cases result) (simp_all add: settle_def onError_def onSuccess_def)

lemma CloseModal_onSubmit_iff:
  "CloseModal \<in> set (snd (onSubmit data result form))
   \<longleftrightarrow> player data \<noteq> None \<and> result = MutationResponse (JsBoolean True)"
  by (cases "player data") (simp_all add: onSubmit_def CloseModal_settle_iff)

lemma CloseModal_submit:
  assumes "CloseModal \<in> set (snd (submit playersQuery result form))"
  shows "result = MutationResponse (JsBoolean True)"
proof (cases "validate (values_of form) = []")
  case True
  with assms show ?thesis
    by (simp add: submit_def Let_def CloseModal_onSubmit_iff)
next
  case False
  with assms show ?thesis
    by (simp add: submit_def Let_def)
qed

lemma fst_onSubmit_Some: "player data = Some p \<Longrightarrow> fst (onSubmit data result form) = form"
  by (simp add: onSubmit_def)

lemma snd_onSubmit_Some:
  "player data = Some p \<Longrightarrow>
   snd (onSubmit data result form) =
     [NotifyLoading ''Saving round..'',
      Mutate \<lparr>round_playerId = id_player p, round_day = data_day data,
              round_grossHoles = data_grossHoles data\<rparr>] @ settle result"
  by (simp add: onSubmit_def)

text \<open>
  Claim C5. When the create-round mutation fails, by a request error or by a response that
  is not a success, exactly one failure notification is shown, the modal is not closed
  and the form is left as it was; the modal is closed only when the mutation succeeds.
\<close>

theorem failed_mutation_notifies_once:
  assumes "player data = Some p"
  shows "(result = MutationError \<or> (\<exists>r. result = MutationResponse r \<and> r \<noteq> JsBoolean True)
          \<longrightarrow> failure_notifications (snd (onSubmit data result form)) = [''Failed to save round'']
              \<and> CloseModal \<notin> set (snd (onSubmit data result form))
              \<and> fst (onSubmit data result form) = form)
       \<and> (CloseModal \<in> set (snd (onSubmit data result form))
          \<longrightarrow> result = MutationResponse (JsBoolean True))
       \<and> (CloseModal \<in> set (snd (submit playersQuery result form))
          \<longrightarrow> result = MutationResponse (JsBoolean True))"
proof (intro conjI impI)
  assume "result = MutationError \<or> (\<exists>r. result = MutationResponse r \<and> r \<noteq> JsBoolean True)"
  then have failed: "result \<noteq> MutationResponse (JsBoolean True)"
    by auto
  have "failure_notifications (snd (onSubmit data result form))
        = failure_notifications (settle result)"
    by (simp add: snd_onSubmit_Some [OF assms] failure_notifications_def)
  then show "failure_notifications (snd (onSubmit data result form)) = [''Failed to save round'']"
    using failure_notifications_settle [OF failed] by simp
  show "CloseModal \<notin> set (snd (onSubmit data result form))"
    using failed by (simp add: CloseModal_onSubmit_iff)
  show "fst (onSubmit data result form) = form"
    by (rule fst_onSubmit_Some [OF assms])
next
  assume "CloseModal \<in> set (snd (onSubmit data result form))"
  then show "result = MutationResponse (JsBoolean True)"
    by (simp add: CloseModal_onSubmit_iff)
next
  assume "CloseModal \<in> set (snd (submit playersQuery result form))"
  then show "result = MutationResponse (JsBoolean True)"
    by (rule CloseModal_submit)
qed

theorem failed_mutation_notifies_once_witness:
  "player example_data = Some \<lparr>id_player = 3, fullName = ''Pat Doe'', division = A, handicap = 10\<rparr>
   \<and> snd (onSubmit example_data MutationError \<lparr>values_of = example_values, errors = []\<rparr>)
       = [NotifyLoading ''Saving round..'', Mutate example_round,
          NotifyUpdateFailure ''Failed to save round'']
   \<and> failure_notifications
        (snd (onSubmit example_data MutationError \<lparr>values_of = example_values, errors = []\<rparr>))
       = [''Failed to save round'']
   \<and> CloseModal \<notin> set (snd (onSubmit example_data MutationError
        \<lparr>values_of = example_values, errors = []\<rparr>))
   \<and> fst (onSubmit example_data MutationError \<lparr>values_of = example_values, errors = []\<rparr>)
       = \<lparr>values_of = example_values, errors = []\<rparr>
   \<and> CloseModal \<in> set (snd (onSubmit example_data (MutationResponse (JsBoolean True))
        \<lparr>values_of = example_values, errors = []\<rparr>))"
  using failed_mutation_notifies_once
      [of example_data "\<lparr>id_player = 3, fullName = ''Pat Doe'', division = A, handicap = 10\<rparr>"
        MutationError "\<lparr>values_of = example_values, errors = []\<rparr>"
        "QuerySuccess example_players"]
    failed_mutation_notifies_once
      [of example_data "\<lparr>id_player = 3, fullName = ''Pat Doe'', division = A, handicap = 10\<rparr>"
        "MutationResponse (JsBoolean True)" "\<lparr>values_of = example_values, errors = []\<rparr>"
        "QuerySuccess example_players"]
  by (simp add: example_data_eq onSubmit_def settle_def onError_def onSuccess_def
        example_round_def)

text \<open>
  Claim C9. When the mutation delivers a response that is anything but the boolean true,
  the submission is reported with the failure notification "Failed to save round" and the
  modal stays open; the success notification and the closing of the modal happen exactly
  when the response is true.
\<close>

theorem response_not_true_is_failure:
  assumes "player data = Some p"
  shows "(response \<noteq> JsBoolean True
          \<longrightarrow> snd (onSubmit data (MutationResponse response) form) =
                [NotifyLoading ''Saving round..'',
                 Mutate \<lparr>round_playerId = id_player p, round_day = data_day data,
                         round_grossHoles = data_grossHoles data\<rparr>,
                 NotifyUpdateFailure ''Failed to save round''])
       \<and> (CloseModal \<in> set (snd (onSubmit data (MutationResponse response) form))
          \<longleftrightarrow> response = JsBoolean True)
       \<and> (success_notifications (snd (onSubmit data (MutationResponse response) form)) \<noteq> []
          \<longleftrightarrow> response = JsBoolean True)
       \<and> (response = JsBoolean True
          \<longrightarrow> snd (onSubmit data (MutationResponse response) form) =
                [NotifyLoading ''Saving round..'',
                 Mutate \<lparr>round_playerId = id_player p, round_day = data_day data,
                         round_grossHoles = data_grossHoles data\<rparr>,
                 NotifyUpdateSuccess ''Saved round'', CloseModal])"
  using assms
  by (simp add: onSubmit_def settle_def onSuccess_def success_notifications_def)

theorem response_not_true_is_failure_witness:
  "player example_data = Some \<lparr>id_player = 3, fullName = ''Pat Doe'', division = A, handicap = 10\<rparr>
   \<and> JsBoolean False \<noteq> JsBoolean True
   \<and> snd (onSubmit example_data (MutationResponse (JsBoolean False))
        \<lparr>values_of = example_values, errors = []\<rparr>)
       = [NotifyLoading ''Saving round..'', Mutate example_round,
          NotifyUpdateFailure ''Failed to save round'']
   \<and> JsString ''true'' \<noteq> JsBoolean True
   \<and> snd (onSubmit example_data (MutationResponse (JsString ''true''))
        \<lparr>values_of = example_values, errors = []\<rparr>)
       = [NotifyLoading ''Saving round..'', Mutate example_round,
          NotifyUpdateFailure ''Failed to save round'']
   \<and> snd (onSubmit example_data (MutationResponse (JsBoolean True))
        \<lparr>values_of = example_values, errors = []\<rparr>)
       = [NotifyLoading ''Saving round..'', Mutate example_round,
          NotifyUpdateSuccess ''Saved round'', CloseModal]"
  using response_not_true_is_failure
      [of example_data "\<lparr>id_player = 3, fullName = ''Pat Doe'', division = A, handicap = 10\<rparr>"
        "JsBoolean False" "\<lparr>values_of = example_values, errors = []\<rparr>"]
    response_not_true_is_failure
      [of example_data "\<lparr>id_player = 3, fullName = ''Pat Doe'', division = A, handicap = 10\<rparr>"
        "JsString ''true''" "\<lparr>values_of = example_values, errors = []\<rparr>"]
    response_not_true_is_failure
      [of example_data "\<lparr>id_player = 3, fullName = ''Pat Doe'', division = A, handicap = 10\<rparr>"
        "JsBoolean True" "\<lparr>values_of = example_values, errors = []\<rparr>"]
  by (simp add: example_data_eq example_round_def)

text \<open>
  Claim C10. When the form passes validation but the selected player id matches no player
  of the fetched list, the mutation is not called, nothing is notified, the error
  "Selected player no longer exists" is set on the player field, and the values of the
  form are unchanged.
\<close>

theorem removed_player_sets_error:
  assumes "validate (values_of form) = []"
    and "player (transformValues (query_data playersQuery) (values_of form)) = None"
  shows "submit playersQuery result form =
           (form\<lparr>errors := [(PlayerIdPath, Message ''Selected player no longer exists'')]\<rparr>, [])
       \<and> mutations (snd (submit playersQuery result form)) = []
       \<and> values_of (fst (submit playersQuery result form)) = values_of form"
  using assms by (simp add: submit_def onSubmit_def mutations_def)

theorem removed_player_sets_error_witness:
  "validate example_values = []
   \<and> player (transformValues (query_data (QuerySuccess remaining_players)) example_values) = None
   \<and> submit (QuerySuccess remaining_players) (MutationResponse (JsBoolean True))
        \<lparr>values_of = example_values, errors = []\<rparr>
      = (\<lparr>values_of = example_values,
          errors = [(PlayerIdPath, Message ''Selected player no longer exists'')]\<rparr>, [])"
proof -
  have none:
    "player (transformValues (query_data (QuerySuccess remaining_players)) example_values) = None"
    by (simp add: transformValues_def query_data_def remaining_players_def example_values_def)
  show ?thesis
    using removed_player_sets_error
        [of "\<lparr>values_of = example_values, errors = []\<rparr>" "QuerySuccess remaining_players"
          "MutationResponse (JsBoolean True)"]
      validate_example_values none
    by simp
qed

section \<open>Invariants of the form\<close>

lemma length_setScore: "length (grossHoles (setScore index v vs)) = length (grossHoles vs)"
  by (simp add: setScore_def)

lemma length_apply_event:
  assumes "length (grossHoles vs) = 18"
  shows "length (grossHoles (apply_event today holes vs ev)) = 18"
  using assms by (cases ev) (simp_all add: length_setScore initialValues_def)

lemma length_foldl_apply_event:
  assumes "length (grossHoles vs) = 18"
  shows "length (grossHoles (foldl (apply_event today holes) vs evs)) = 18"
  using assms
proof (induction evs arbitrary: vs)
  case Nil
  then show ?case by simp
next
  case (Cons ev evs)
  from Cons.prems have "length (grossHoles (apply_event today holes vs ev)) = 18"
    by (rule length_apply_event)
  then show ?case
    by (simp add: Cons.IH)
qed

lemma length_run: "length (grossHoles (run today holes evs)) = 18"
  unfolding run_def by (rule length_foldl_apply_event) (simp add: initialValues_def)

lemma length_transformValues:
  "length (data_grossHoles (transformValues players vs)) = length (grossHoles vs)"
  by (simp add: transformValues_def)

lemma mutations_onSubmit:
  "r \<in> set (mutations (snd (onSubmit data result form)))
   \<Longrightarrow> round_grossHoles r = data_grossHoles data"
  by (cases "player data"; cases result)
     (auto simp: onSubmit_def mutations_def settle_def onError_def onSuccess_def
        split: if_splits)

lemma mutations_submit:
  assumes "r \<in> set (mutations (snd (submit playersQuery result form)))"
  shows "round_grossHoles r
       = data_grossHoles (transformValues (query_data playersQuery) (values_of form))"
proof (cases "validate (values_of form) = []")
  case True
  then have "submit playersQuery result form =
      onSubmit (transformValues (query_data playersQuery) (values_of form)) result
        (form\<lparr>errors := []\<rparr>)"
    by (simp add: submit_def Let_def)
  with assms show ?thesis
    by (simp add: mutations_onSubmit)
next
  case False
  then have "snd (submit playersQuery result form) = []"
    by (simp add: submit_def Let_def)
  with assms show ?thesis
    by (simp add: mutations_def)
qed

lemma run_example_events: "run FRIDAY example_holes example_events = example_values"
  by (simp add: run_def example_events_def example_holes_def example_scores_def
        example_values_def initialValues_def setScore_def eval_nat_numeral upt_rec)

text \<open>
  Claim C6. The hole list of the form has exactly 18 entries whenever submission is
  attempted: it starts with 18 entries, no edit changes their number, the transformation
  maps the list entry by entry, and so every call of the create-round mutation carries 18
  scores.
\<close>

theorem grossHoles_has_18_entries:
  "length (grossHoles (initialValues today)) = 18
   \<and> length (data_grossHoles (transformValues players vs)) = length (grossHoles vs)
   \<and> length (grossHoles (run today holes evs)) = 18
   \<and> (\<forall>r\<in>set (mutations (snd (submit playersQuery result
                \<lparr>values_of = run today holes evs, errors = errs\<rparr>))).
        length (round_grossHoles r) = 18)"
proof (intro conjI ballI)
  show "length (grossHoles (initialValues today)) = 18"
    by (simp add: initialValues_def)
  show "length (data_grossHoles (transformValues players vs)) = length (grossHoles vs)"
    by (rule length_transformValues)
  show "length (grossHoles (run today holes evs)) = 18"
    by (rule length_run)
next
  fix r
  assume "r \<in> set (mutations (snd (submit playersQuery result
                \<lparr>values_of = run today holes evs, errors = errs\<rparr>)))"
  then have "round_grossHoles r
       = data_grossHoles (transformValues (query_data playersQuery) (run today holes evs))"
    using mutations_submit by fastforce
  then show "length (round_grossHoles r) = 18"
    by (simp add: length_transformValues length_run)
qed

theorem grossHoles_has_18_entries_witness:
  "mutations (snd (submit (QuerySuccess example_players) MutationError
       \<lparr>values_of = run FRIDAY example_holes example_events, errors = []\<rparr>)) = [example_round]
   \<and> length (round_grossHoles example_round) = 18"
proof -
  have "mutations (snd (submit (QuerySuccess example_players) MutationError
       \<lparr>values_of = run FRIDAY example_holes example_events, errors = []\<rparr>)) = [example_round]"
    using example_data_eq
    by (simp add: run_example_events submit_def Let_def validate_example_values onSubmit_def
        query_data_def mutations_def settle_def onError_def example_round_def example_data_def)
  then show ?thesis
    using grossHoles_has_18_entries
        [of FRIDAY example_players example_values example_holes example_events
          "QuerySuccess example_players" MutationError "[]"]
    by simp
qed

end
